theory Spec2Isabelle
  imports Complex_Main "HOL-Library.Char_ord" "HOL-Library.List_Lexorder"
begin

section \<open>Data model: the data frames of boxplot.py\<close>

text \<open>
  The two scripts \<^verbatim>\<open>src/csvs/csvs/boxplot.py\<close> (the "improved" one) and
  \<^verbatim>\<open>src/csvs-20250410T203914Z-001/csvs/boxplot.py\<close> (the "basic" one) share every
  line up to the chart block. A data frame is an ordered list of column names and an
  ordered list of rows; a row carries its index label and maps a column name to a cell.
  A cell is a number, a text, or missing (NaN). Numbers are modelled as reals: the
  properties below only compare and average them, and rounding is left out.
\<close>

datatype cell = Num real | Str string | NaN

type_synonym row = "string \<rightharpoonup> cell"

record dataframe =
  columns :: "string list"
  rows :: "(nat \<times> row) list"

text \<open>Reading a cell: a column the row has no entry for reads as missing.\<close>

definition cell_of :: "row \<Rightarrow> string \<Rightarrow> cell" where
  "cell_of r c = (case r c of None \<Rightarrow> NaN | Some v \<Rightarrow> v)"

text \<open>\<^verbatim>\<open>pd.DataFrame()\<close>\<close>

definition empty_frame :: dataframe where
  "empty_frame = \<lparr>columns = [], rows = []\<rparr>"

text \<open>\<^verbatim>\<open>df[c] = value\<close>: a new column is appended, an existing one overwritten.\<close>

definition add_column :: "string \<Rightarrow> string list \<Rightarrow> string list" where
  "add_column c cols = (if c \<in> set cols then cols else cols @ [c])"

definition set_constant :: "string \<Rightarrow> cell \<Rightarrow> dataframe \<Rightarrow> dataframe" where
  "set_constant c v df =
     \<lparr>columns = add_column c (columns df),
      rows = map (\<lambda>(i, r). (i, r(c \<mapsto> v))) (rows df)\<rparr>"

text \<open>\<^verbatim>\<open>df[c] = range(len(df))\<close>: the k-th row (by position) receives k.\<close>

fun number_rows :: "string \<Rightarrow> nat \<Rightarrow> (nat \<times> row) list \<Rightarrow> (nat \<times> row) list" where
  "number_rows c k [] = []"
| "number_rows c k ((i, r) # rest) = (i, r(c \<mapsto> Num (real k))) # number_rows c (Suc k) rest"

definition set_range :: "string \<Rightarrow> dataframe \<Rightarrow> dataframe" where
  "set_range c df =
     \<lparr>columns = add_column c (columns df), rows = number_rows c 0 (rows df)\<rparr>"

text \<open>
  \<^verbatim>\<open>pd.concat([a, b])\<close>: the rows of a, then those of b, index labels kept; the
  columns are those of a followed by the new ones of b, and a cell a row has no entry
  for reads as missing.
\<close>

definition concat_frames :: "dataframe \<Rightarrow> dataframe \<Rightarrow> dataframe" where
  "concat_frames a b =
     \<lparr>columns = columns a @ filter (\<lambda>c. c \<notin> set (columns a)) (columns b),
      rows = rows a @ rows b\<rparr>"

section \<open>CSV loader (lines 10-25 of both scripts)\<close>

definition files :: "(string \<times> string) list" where
  "files = [(''r5.11.4'', ''r5.11.4-filtered.csv''),
            (''r5.12.0'', ''r5.12.0-filtered.csv''),
            (''r5.12.1'', ''r5.12.1-filtered.csv'')]"

text \<open>One pass of the loading loop: tag the frame, number its rows.\<close>

definition tag_frame :: "string \<Rightarrow> dataframe \<Rightarrow> dataframe" where
  "tag_frame tag df = set_range ''unique_id'' (set_constant ''Tag'' (Str tag) df)"

text \<open>
  The loop over \<^verbatim>\<open>files.items()\<close>. \<^verbatim>\<open>pd.read_csv\<close> is the environment: it yields
  a frame or raises (None), and a raise ends the whole run.
\<close>

fun load_loop ::
  "(string \<Rightarrow> dataframe option) \<Rightarrow> (string \<times> string) list \<Rightarrow> dataframe \<Rightarrow> dataframe option" where
  "load_loop read_csv [] all_data = Some all_data"
| "load_loop read_csv ((tag, file) # rest) all_data =
     (case read_csv file of
        None \<Rightarrow> None
      | Some df \<Rightarrow> load_loop read_csv rest (concat_frames all_data (tag_frame tag df)))"

text \<open>
  \<^verbatim>\<open>drop_duplicates()\<close>: a row is dropped when an earlier row has the same cells in
  every column (missing equals missing); the first occurrence stays, with its index
  label, which takes no part in the comparison.
\<close>

definition same_cells :: "string list \<Rightarrow> row \<Rightarrow> row \<Rightarrow> bool" where
  "same_cells cols r s = list_all (\<lambda>c. cell_of r c = cell_of s c) cols"

fun keep_first :: "string list \<Rightarrow> row list \<Rightarrow> (nat \<times> row) list \<Rightarrow> (nat \<times> row) list" where
  "keep_first cols seen [] = []"
| "keep_first cols seen ((i, r) # rest) =
     (if list_ex (same_cells cols r) seen then keep_first cols seen rest
      else (i, r) # keep_first cols (r # seen) rest)"

definition drop_duplicates :: "dataframe \<Rightarrow> dataframe" where
  "drop_duplicates df = df\<lparr>rows := keep_first (columns df) [] (rows df)\<rparr>"

definition load_all :: "(string \<Rightarrow> dataframe option) \<Rightarrow> dataframe option" where
  "load_all read_csv = map_option drop_duplicates (load_loop read_csv files empty_frame)"

section \<open>Row classifier (lines 28-29 of both scripts)\<close>

datatype py_error = KeyError string | ValueError string | LibraryError string

text \<open>
  \<^verbatim>\<open>df[df[c].isin(values)]\<close>: the rows whose cell in column c is one of the
  values, in order; reading a column the frame does not have raises KeyError.
\<close>

definition isin :: "string \<Rightarrow> string list \<Rightarrow> row \<Rightarrow> bool" where
  "isin c vals r = (case cell_of r c of Str s \<Rightarrow> s \<in> set vals | _ \<Rightarrow> False)"

definition select_isin :: "string \<Rightarrow> string list \<Rightarrow> dataframe \<Rightarrow> py_error + dataframe" where
  "select_isin c vals df =
     (if c \<in> set (columns df)
      then Inr (df\<lparr>rows := filter (\<lambda>(i, r). isin c vals r) (rows df)\<rparr>)
      else Inl (KeyError c))"

definition class_kinds :: "string list" where
  "class_kinds = [''Private Class'', ''Public Class'']"

definition method_kinds :: "string list" where
  "method_kinds = [''Private Method'', ''Public Method'', ''Protected Method'']"

definition class_data :: "dataframe \<Rightarrow> py_error + dataframe" where
  "class_data all_data = select_isin ''Kind'' class_kinds all_data"

definition method_data :: "dataframe \<Rightarrow> py_error + dataframe" where
  "method_data all_data = select_isin ''Kind'' method_kinds all_data"

section \<open>Metric catalog and metric list (lines 34-60)\<close>

definition quality_mapping :: "(string \<times> string) list" where
  "quality_mapping =
    [(''SumCyclomatic'', ''Total cyclomatic complexity (Sum CC)''),
     (''AvgEssential'', ''Average essential complexity (Avg. EC)''),
     (''MaxInheritanceTree'', ''Depth of inheritance tree (DIT)''),
     (''PercentLackOfCohesion'', ''Lack of cohesion (LCOM)''),
     (''CountClassDerived'', ''Number of children (NOC)''),
     (''CountClassCoupled'', ''Coupling between objects (CBO)''),
     (''CountDeclMethod'', ''Weighted methods per class (WMC)''),
     (''CountLineCode'', ''Source lines of code (SLOC)'')]"

text \<open>\<^verbatim>\<open>quality_mapping.get(metric, metric)\<close>\<close>

definition quality_label :: "string \<Rightarrow> string" where
  "quality_label metric = (case map_of quality_mapping metric of None \<Rightarrow> metric | Some d \<Rightarrow> d)"

definition class_metrics :: "string list" where
  "class_metrics =
    [''SumCyclomatic'', ''MaxInheritanceTree'', ''PercentLackOfCohesion'', ''CountClassDerived'',
     ''CountClassCoupled'', ''CountDeclMethod'', ''CountLineCode'']"

section \<open>Statistics of one metric (B.i and B.ii of the loop)\<close>

text \<open>\<^verbatim>\<open>class_data.dropna(subset=[metric])\<close>\<close>

definition dropna :: "string \<Rightarrow> dataframe \<Rightarrow> dataframe" where
  "dropna metric df = df\<lparr>rows := filter (\<lambda>(i, r). cell_of r metric \<noteq> NaN) (rows df)\<rparr>"

text \<open>
  \<^verbatim>\<open>groupby('Tag')\<close>: one group per distinct tag, the groups in sorted key order.
  The loader sets every Tag to a text; a row whose Tag is missing belongs to no group.
\<close>

definition group_keys :: "dataframe \<Rightarrow> string list" where
  "group_keys df =
     sort (remdups (concat (map (\<lambda>(i, r). case cell_of r ''Tag'' of Str t \<Rightarrow> [t] | _ \<Rightarrow> []) (rows df))))"

text \<open>The numbers of a column, in row order (missing cells are skipped by every statistic).\<close>

definition column_values :: "string \<Rightarrow> (nat \<times> row) list \<Rightarrow> real list" where
  "column_values metric rs =
     concat (map (\<lambda>(i, r). case cell_of r metric of Num v \<Rightarrow> [v] | _ \<Rightarrow> []) rs)"

definition group_values :: "string \<Rightarrow> string \<Rightarrow> dataframe \<Rightarrow> real list" where
  "group_values metric t df =
     column_values metric (filter (\<lambda>(i, r). cell_of r ''Tag'' = Str t) (rows df))"

text \<open>
  A column holding a text has dtype object; \<^verbatim>\<open>describe()\<close> of such a column has no
  quantile columns, and selecting \<^verbatim>\<open>'50%'\<close> from it raises KeyError.
\<close>

definition numeric_column :: "string \<Rightarrow> dataframe \<Rightarrow> bool" where
  "numeric_column metric df =
     list_all (\<lambda>(i, r). case cell_of r metric of Str s \<Rightarrow> False | _ \<Rightarrow> True) (rows df)"

text \<open>
  The median of a series: the middle value of the sorted numbers, or the mean of the two
  middle ones; NaN (None) for an empty series.
\<close>

definition median :: "real list \<Rightarrow> real option" where
  "median xs =
     (if xs = [] then None
      else let s = sort xs; n = length xs
           in Some (if odd n then s ! (n div 2) else (s ! (n div 2 - 1) + s ! (n div 2)) / 2))"

text \<open>The quantile k/d of a series, by linear interpolation between the two nearest ranks.\<close>

definition quantile :: "nat \<Rightarrow> nat \<Rightarrow> real list \<Rightarrow> real option" where
  "quantile k d xs =
     (if xs = [] then None
      else let s = sort xs; h = (length xs - 1) * k; lo = h div d;
               hi = min (lo + 1) (length xs - 1)
           in Some (s ! lo + (real (h mod d) / real d) * (s ! hi - s ! lo)))"

definition series_min :: "real list \<Rightarrow> real option" where
  "series_min xs = (case xs of [] \<Rightarrow> None | x # rest \<Rightarrow> Some (fold min rest x))"

definition series_max :: "real list \<Rightarrow> real option" where
  "series_max xs = (case xs of [] \<Rightarrow> None | x # rest \<Rightarrow> Some (fold max rest x))"

text \<open>The printed columns of \<^verbatim>\<open>describe()\<close>: median, 25%, 75%, min, max.\<close>

record summary =
  s_median :: "real option"
  s_q25 :: "real option"
  s_q75 :: "real option"
  s_min :: "real option"
  s_max :: "real option"

definition describe :: "string \<Rightarrow> dataframe \<Rightarrow> (string \<times> summary) list" where
  "describe metric clean_data =
     map (\<lambda>t. let xs = group_values metric t clean_data
              in (t, \<lparr>s_median = quantile 2 4 xs, s_q25 = quantile 1 4 xs, s_q75 = quantile 3 4 xs,
                      s_min = series_min xs, s_max = series_max xs\<rparr>))
         (group_keys clean_data)"

text \<open>
  \<^verbatim>\<open>clean_data.groupby('Tag')[metric].median()\<close>: tag and median, in group order.
  A group is never empty, so each has a median.
\<close>

definition medians :: "string \<Rightarrow> dataframe \<Rightarrow> (string \<times> real) list" where
  "medians metric clean_data =
     concat (map (\<lambda>t. case median (group_values metric t clean_data) of
                         None \<Rightarrow> [] | Some m \<Rightarrow> [(t, m)])
                 (group_keys clean_data))"

text \<open>
  \<^verbatim>\<open>is_monotonic_increasing\<close> and \<^verbatim>\<open>is_monotonic_decreasing\<close> of a series compare
  each value with the one before it, with \<open>\<le>\<close> and \<open>\<ge>\<close>.
\<close>

fun is_monotonic_increasing :: "real list \<Rightarrow> bool" where
  "is_monotonic_increasing (x # y # rest) = (x \<le> y \<and> is_monotonic_increasing (y # rest))"
| "is_monotonic_increasing _ = True"

fun is_monotonic_decreasing :: "real list \<Rightarrow> bool" where
  "is_monotonic_decreasing (x # y # rest) = (x \<ge> y \<and> is_monotonic_decreasing (y # rest))"
| "is_monotonic_decreasing _ = True"

definition trend :: "real list \<Rightarrow> string" where
  "trend ms =
     (if is_monotonic_increasing ms then ''increasing''
      else if is_monotonic_decreasing ms then ''decreasing'' else ''stable'')"

section \<open>Guideline comparison (B.iii of the loop)\<close>

definition dit_assessment :: "real \<Rightarrow> string" where
  "dit_assessment v =
     (if v > 6 then ''Too high (>6)'' else if v < 2 then ''Too low (<2)'' else ''Optimal (2-6)'')"

definition lcom_assessment :: "real \<Rightarrow> string" where
  "lcom_assessment v =
     (if v > 80 then ''Poor (>80%)'' else if v > 50 then ''Moderate (50-80%)'' else ''Good (<50%)'')"

definition cc_assessment :: "real \<Rightarrow> string" where
  "cc_assessment v =
     (if v > 50 then ''High (>50)'' else if v > 20 then ''Moderate (20-50)'' else ''Low (<20)'')"

text \<open>What the script prints, one event per print statement (or per printed line of a loop).\<close>

datatype event =
    SkipNotice string
  | Header string
  | StatsTable "(string \<times> summary) list"
  | TrendLine string
  | AssessHeader string
  | AssessLine string real string
  | ChartError string py_error

definition assessment :: "string \<Rightarrow> (string \<times> real) list \<Rightarrow> event list" where
  "assessment metric ms =
     (if metric = ''MaxInheritanceTree''
        then AssessHeader ''DIT Assessment:'' # map (\<lambda>(tag, v). AssessLine tag v (dit_assessment v)) ms
      else if metric = ''PercentLackOfCohesion''
        then AssessHeader ''LCOM Assessment:'' # map (\<lambda>(tag, v). AssessLine tag v (lcom_assessment v)) ms
      else if metric = ''SumCyclomatic''
        then AssessHeader ''Cyclomatic Complexity Assessment:''
               # map (\<lambda>(tag, v). AssessLine tag v (cc_assessment v)) ms
      else [])"

section \<open>Chart block (the end of the loop body)\<close>

text \<open>
  The calls into seaborn and matplotlib, with the arguments the scripts pass. Whether a
  call raises is the environment's: \<open>raises metric call\<close> is the exception (deriving from
  Exception) that the call raises while the given metric is processed, if any.
\<close>

record boxplot_args =
  bp_x :: string
  bp_y :: string
  bp_data :: dataframe
  bp_notch :: bool
  bp_showfliers :: "bool option"
  bp_width :: "real option"
  bp_palette :: "string option"

datatype plot_call =
    Figure real real
  | Boxplot boxplot_args
  | Title string "real option"
  | Xlabel string real
  | Ylabel string real
  | Yticks "int list"
  | Ylim real real
  | Grid string real
  | TightLayout
  | Savefig string "nat option"
  | Close

type_synonym plotting = "string \<Rightarrow> plot_call \<Rightarrow> py_error option"

datatype script = Improved | Basic

text \<open>Calls made one after the other; the first one that raises ends the sequence.\<close>

fun run_calls :: "(plot_call \<Rightarrow> py_error option) \<Rightarrow> plot_call list \<Rightarrow> py_error option" where
  "run_calls raises [] = None"
| "run_calls raises (c # cs) = (case raises c of Some e \<Rightarrow> Some e | None \<Rightarrow> run_calls raises cs)"

text \<open>Lines 111-115 of the improved script: the local flag \<^verbatim>\<open>use_notch\<close>.\<close>

definition use_notch :: "string \<Rightarrow> bool" where
  "use_notch metric =
     (if metric \<in> set [''CountClassDerived'', ''MaxInheritanceTree'', ''CountClassCoupled'']
      then False else True)"

text \<open>Lines 118-126 of the improved script: the arguments of \<^verbatim>\<open>sns.boxplot\<close>.\<close>

definition boxplot_improved :: "string \<Rightarrow> dataframe \<Rightarrow> boxplot_args" where
  "boxplot_improved metric clean_data =
     \<lparr>bp_x = ''Tag'', bp_y = metric, bp_data = clean_data, bp_notch = True,
      bp_showfliers = Some True, bp_width = Some 0.5, bp_palette = Some ''Set2''\<rparr>"

text \<open>Line 107 of the basic script.\<close>

definition boxplot_basic :: "string \<Rightarrow> dataframe \<Rightarrow> boxplot_args" where
  "boxplot_basic metric clean_data =
     \<lparr>bp_x = ''Tag'', bp_y = metric, bp_data = clean_data, bp_notch = True,
      bp_showfliers = None, bp_width = None, bp_palette = None\<rparr>"

text \<open>\<^verbatim>\<open>int(x)\<close> of a float truncates towards zero.\<close>

definition py_int :: "real \<Rightarrow> int" where
  "py_int x = (if 0 \<le> x then \<lfloor>x\<rfloor> else \<lceil>x\<rceil>)"

text \<open>
  Lines 129-149 of the improved script: the axis calls. On an empty series every
  statistic is NaN: \<^verbatim>\<open>int(NaN)\<close> raises ValueError, and so does \<^verbatim>\<open>plt.ylim\<close> on NaN
  limits.
\<close>

definition axis_calls :: "string \<Rightarrow> real list \<Rightarrow> py_error + plot_call list" where
  "axis_calls metric xs =
     (if metric \<in> set [''CountClassDerived'', ''MaxInheritanceTree'']
      then (case series_max xs of
              None \<Rightarrow> Inl (ValueError ''cannot convert float NaN to integer'')
            | Some mx \<Rightarrow>
                let max_val = py_int mx
                in Inr [Yticks [0 .. max_val], Ylim (- 0.5) (real_of_int max_val + 0.5)])
      else (case (quantile 1 4 xs, quantile 3 4 xs, series_min xs, series_max xs) of
              (Some q1, Some q3, Some mn, Some mx) \<Rightarrow>
                let iqr = q3 - q1;
                    upper_threshold = q3 + 1.5 * iqr;
                    lower_threshold = q1 - 1.5 * iqr;
                    y_min = max mn (lower_threshold - iqr);
                    y_max = min mx (upper_threshold + iqr)
                in Inr [Ylim y_min y_max]
            | _ \<Rightarrow> Inl (ValueError ''Axis limits cannot be NaN or Inf'')))"

text \<open>
  The body of the \<^verbatim>\<open>try\<close>: None when it runs to its end, the exception otherwise.
  The improved script computes \<^verbatim>\<open>use_notch\<close> and then passes \<^verbatim>\<open>notch=True\<close>.
\<close>

definition chart_improved :: "(plot_call \<Rightarrow> py_error option) \<Rightarrow> string \<Rightarrow> dataframe \<Rightarrow> py_error option" where
  "chart_improved raises metric clean_data =
     (let notch_flag = use_notch metric
      in case run_calls raises
                [Boxplot (boxplot_improved metric clean_data),
                 Title (''Distribution of '' @ quality_label metric @ '' by Version'') (Some 20),
                 Xlabel ''Software Version'' 10,
                 Ylabel (quality_label metric) 10] of
           Some e \<Rightarrow> Some e
         | None \<Rightarrow>
            (case axis_calls metric (column_values metric (rows clean_data)) of
               Inl e \<Rightarrow> Some e
             | Inr axis \<Rightarrow>
                 run_calls raises
                   (axis @ [Grid ''y'' 0.3, TightLayout,
                            Savefig (''outputs/'' @ metric @ ''_boxplot.png'') (Some 300), Close])))"

definition chart_basic :: "(plot_call \<Rightarrow> py_error option) \<Rightarrow> string \<Rightarrow> dataframe \<Rightarrow> py_error option" where
  "chart_basic raises metric clean_data =
     run_calls raises
       [Boxplot (boxplot_basic metric clean_data),
        Title (metric @ '' by Version'') None,
        Savefig (''outputs/'' @ metric @ ''_boxplot.png'') None, Close]"

definition chart :: "script \<Rightarrow> (plot_call \<Rightarrow> py_error option) \<Rightarrow> string \<Rightarrow> dataframe \<Rightarrow> py_error option" where
  "chart v raises metric clean_data =
     (case v of Improved \<Rightarrow> chart_improved raises metric clean_data
              | Basic \<Rightarrow> chart_basic raises metric clean_data)"

text \<open>
  \<^verbatim>\<open>plt.figure(figsize=...)\<close>, the statement before the \<^verbatim>\<open>try\<close> (line 108 of the
  improved script, line 105 of the basic one).
\<close>

definition figure_call :: "script \<Rightarrow> plot_call" where
  "figure_call v = (case v of Improved \<Rightarrow> Figure 10 6 | Basic \<Rightarrow> Figure 8 5)"

section \<open>The analysis loop over class_metrics\<close>

text \<open>What B.i to B.iii print for a metric whose column is numeric.\<close>

definition metric_report :: "string \<Rightarrow> dataframe \<Rightarrow> event list" where
  "metric_report metric clean_data =
     (let ms = medians metric clean_data
      in [Header metric, StatsTable (describe metric clean_data), TrendLine (trend (map snd ms))]
         @ assessment metric ms)"

text \<open>
  One pass of the loop for a metric that is a column of the class rows: what it prints,
  and the exception that leaves the loop, if any. Only the \<^verbatim>\<open>try\<close> block has a handler.
\<close>

definition process_metric :: "script \<Rightarrow> plotting \<Rightarrow> dataframe \<Rightarrow> string \<Rightarrow> event list \<times> py_error option" where
  "process_metric v raises class_rows metric =
     (let clean_data = dropna metric class_rows
      in if ''Tag'' \<notin> set (columns clean_data) then ([], Some (KeyError ''Tag''))
         else if \<not> numeric_column metric clean_data then ([Header metric], Some (KeyError ''50%''))
         else (case raises metric (figure_call v) of
                 Some e \<Rightarrow> (metric_report metric clean_data, Some e)
               | None \<Rightarrow>
                  (case chart v (raises metric) metric clean_data of
                     None \<Rightarrow> (metric_report metric clean_data, None)
                   | Some e \<Rightarrow> (metric_report metric clean_data @ [ChartError metric e], None))))"

datatype outcome = Finished | Aborted py_error

definition prepend :: "event list \<Rightarrow> event list \<times> outcome \<Rightarrow> event list \<times> outcome" where
  "prepend out run = (out @ fst run, snd run)"

fun analyze :: "script \<Rightarrow> plotting \<Rightarrow> dataframe \<Rightarrow> string list \<Rightarrow> event list \<times> outcome" where
  "analyze v raises class_rows [] = ([], Finished)"
| "analyze v raises class_rows (metric # rest) =
     (if metric \<notin> set (columns class_rows)
      then prepend [SkipNotice metric] (analyze v raises class_rows rest)
      else (case process_metric v raises class_rows metric of
              (out, Some e) \<Rightarrow> (out, Aborted e)
            | (out, None) \<Rightarrow> prepend out (analyze v raises class_rows rest)))"

section \<open>Auxiliary notions and sample inputs\<close>

text \<open>The pair of cells the loader adds to a row.\<close>

definition row_key :: "row \<Rightarrow> cell \<times> cell" where
  "row_key r = (cell_of r ''Tag'', cell_of r ''unique_id'')"

text \<open>The frame the loading loop builds from the three parsed files.\<close>

definition combined :: "dataframe \<Rightarrow> dataframe \<Rightarrow> dataframe \<Rightarrow> dataframe" where
  "combined d1 d2 d3 =
     concat_frames (concat_frames (concat_frames empty_frame (tag_frame ''r5.11.4'' d1))
       (tag_frame ''r5.12.0'' d2)) (tag_frame ''r5.12.1'' d3)"

definition is_skip :: "event \<Rightarrow> bool" where
  "is_skip e = (case e of SkipNotice m \<Rightarrow> True | _ \<Rightarrow> False)"

text \<open>Three small files; the first holds the same row twice.\<close>

definition demo_a :: dataframe where
  "demo_a = \<lparr>columns = [''Kind'', ''SumCyclomatic''],
     rows = [(0, [''Kind'' \<mapsto> Str ''Public Class'', ''SumCyclomatic'' \<mapsto> Num 3]),
             (1, [''Kind'' \<mapsto> Str ''Public Class'', ''SumCyclomatic'' \<mapsto> Num 3])]\<rparr>"

definition demo_b :: dataframe where
  "demo_b = \<lparr>columns = [''Kind'', ''SumCyclomatic''],
     rows = [(0, [''Kind'' \<mapsto> Str ''Public Class'', ''SumCyclomatic'' \<mapsto> Num 3])]\<rparr>"

definition demo_read :: "string \<Rightarrow> dataframe option" where
  "demo_read file =
     (if file = ''r5.11.4-filtered.csv'' then Some demo_a
      else if file = ''r5.12.0-filtered.csv'' then Some demo_b
      else if file = ''r5.12.1-filtered.csv'' then Some demo_b
      else None)"

text \<open>Combined rows of three kinds, the last one neither of the class nor of the method kinds.\<close>

definition kinds_frame :: dataframe where
  "kinds_frame =
     \<lparr>columns = [''Kind''],
      rows = [(0, [''Kind'' \<mapsto> Str ''Public Class'']),
              (1, [''Kind'' \<mapsto> Str ''Public Method'']),
              (2, [''Kind'' \<mapsto> Str ''Protected Class''])]\<rparr>"

text \<open>Class rows with one metric column, given as (tag, value) pairs.\<close>

definition class_row :: "string \<Rightarrow> string \<Rightarrow> real \<Rightarrow> row" where
  "class_row tag metric v = [''Kind'' \<mapsto> Str ''Public Class'', metric \<mapsto> Num v, ''Tag'' \<mapsto> Str tag]"

definition frame_of :: "string \<Rightarrow> (string \<times> real) list \<Rightarrow> dataframe" where
  "frame_of metric tvs =
     \<lparr>columns = [''Kind'', metric, ''Tag''],
      rows = map (\<lambda>(k, (t, v)). (k, class_row t metric v)) (enumerate 0 tvs)\<rparr>"

definition rising_frame :: dataframe where
  "rising_frame = frame_of ''CountLineCode'' [(''A'', 1), (''A'', 2), (''B'', 3), (''B'', 4)]"

definition falling_frame :: dataframe where
  "falling_frame = frame_of ''CountLineCode'' [(''A'', 4), (''A'', 3), (''B'', 2), (''B'', 1)]"

definition level_frame :: dataframe where
  "level_frame = frame_of ''CountLineCode'' [(''A'', 2), (''A'', 2), (''B'', 1), (''B'', 3)]"

text \<open>Class rows with two metric columns, one row from each of two versions.\<close>

definition two_metric_frame :: dataframe where
  "two_metric_frame =
     \<lparr>columns = [''Kind'', ''SumCyclomatic'', ''CountLineCode'', ''Tag''],
      rows = [(0, [''Kind'' \<mapsto> Str ''Public Class'', ''SumCyclomatic'' \<mapsto> Num 20,
                   ''CountLineCode'' \<mapsto> Num 100, ''Tag'' \<mapsto> Str ''r5.11.4'']),
              (0, [''Kind'' \<mapsto> Str ''Public Class'', ''SumCyclomatic'' \<mapsto> Num 25,
                   ''CountLineCode'' \<mapsto> Num 120, ''Tag'' \<mapsto> Str ''r5.12.0''])]\<rparr>"

text \<open>
  Three plotting environments: one where no call raises, one where creating the figure
  raises while SumCyclomatic is processed, one where the box plot call does.
\<close>

definition quiet :: plotting where
  "quiet metric call = None"

definition figure_fails :: plotting where
  "figure_fails metric call =
     (case call of
        Figure w h \<Rightarrow> if metric = ''SumCyclomatic'' then Some (LibraryError ''cannot open display'') else None
      | _ \<Rightarrow> None)"

definition boxplot_fails :: plotting where
  "boxplot_fails metric call =
     (case call of
        Boxplot args \<Rightarrow> if metric = ''SumCyclomatic'' then Some (LibraryError ''rendering failed'') else None
      | _ \<Rightarrow> None)"

text \<open>The metrics a printout deals with, in order: one per skip notice or metric header.\<close>

definition handled :: "event list \<Rightarrow> string list" where
  "handled out = concat (map (\<lambda>e. case e of SkipNotice m \<Rightarrow> [m] | Header m \<Rightarrow> [m] | _ \<Rightarrow> []) out)"

section \<open>Deduplication and loading\<close>

lemma same_cells_refl: "same_cells cols r r"
  by (simp add: same_cells_def list_all_iff)

lemma same_cells_trans: "same_cells cols r s \<Longrightarrow> same_cells cols s t \<Longrightarrow> same_cells cols r t"
  by (simp add: same_cells_def list_all_iff)

text \<open>
  Rows that passed the filter pass it again, whatever part of the rows seen so far the
  second pass remembers.
\<close>

lemma keep_first_absorb:
  "(\<forall>s' \<in> set seen'. \<exists>s \<in> set seen. same_cells cols s' s) \<Longrightarrow>
   keep_first cols seen' (keep_first cols seen xs) = keep_first cols seen xs"
proof (induction xs arbitrary: seen seen')
  case Nil
  then show ?case by simp
next
  case (Cons x xs)
  obtain i r where x: "x = (i, r)" by (cases x)
  show ?case
  proof (cases "list_ex (same_cells cols r) seen")
    case True
    with Cons x show ?thesis by simp
  next
    case False
    have fresh: "\<not> list_ex (same_cells cols r) seen'"
    proof
      assume "list_ex (same_cells cols r) seen'"
      then obtain s' where s': "s' \<in> set seen'" "same_cells cols r s'"
        by (auto simp: list_ex_iff)
      with Cons.prems obtain s where "s \<in> set seen" "same_cells cols s' s" by blast
      with s' have "list_ex (same_cells cols r) seen"
        by (auto simp: list_ex_iff intro: same_cells_trans)
      with False show False by simp
    qed
    have sub: "\<forall>s' \<in> set (r # seen'). \<exists>s \<in> set (r # seen). same_cells cols s' s"
      using Cons.prems by (auto intro: same_cells_refl)
    from Cons.IH [OF sub] False fresh x show ?thesis by simp
  qed
qed

text \<open>
  C7. Exact-duplicate removal is idempotent: applying \<open>drop_duplicates\<close> to its own
  output gives that output back, for every frame.
\<close>

theorem drop_duplicates_idempotent: "drop_duplicates (drop_duplicates df) = drop_duplicates df"
  using keep_first_absorb [of "[]" "[]" "columns df" "rows df"]
  by (simp add: drop_duplicates_def)

lemma same_cells_key:
  "''Tag'' \<in> set cols \<Longrightarrow> ''unique_id'' \<in> set cols \<Longrightarrow> same_cells cols r s \<Longrightarrow> row_key r = row_key s"
  by (simp add: same_cells_def list_all_iff row_key_def)

lemma keep_first_distinct_keys:
  assumes "''Tag'' \<in> set cols" "''unique_id'' \<in> set cols"
  shows "distinct (map (row_key \<circ> snd) xs) \<Longrightarrow>
         row_key ` snd ` set xs \<inter> row_key ` set seen = {} \<Longrightarrow>
         keep_first cols seen xs = xs"
proof (induction xs arbitrary: seen)
  case Nil
  then show ?case by simp
next
  case (Cons x xs)
  obtain i r where x: "x = (i, r)" by (cases x)
  have fresh: "\<not> list_ex (same_cells cols r) seen"
  proof
    assume "list_ex (same_cells cols r) seen"
    then obtain s where "s \<in> set seen" "same_cells cols r s" by (auto simp: list_ex_iff)
    with assms have "row_key r \<in> row_key ` set seen" by (auto dest: same_cells_key)
    with Cons.prems(2) x show False by auto
  qed
  have d: "distinct (map (row_key \<circ> snd) xs)" using Cons.prems(1) by (simp add: comp_def)
  have notin: "row_key r \<notin> row_key ` snd ` set xs" using Cons.prems(1) x by (auto simp: image_image)
  have disj: "row_key ` snd ` set xs \<inter> row_key ` set (r # seen) = {}"
    using Cons.prems(2) notin x by auto
  from Cons.IH [OF d disj] fresh x show ?case by simp
qed

lemma number_rows_length: "length (number_rows c k xs) = length xs"
  by (induction c k xs rule: number_rows.induct) simp_all

lemma number_rows_keys:
  "\<forall>x \<in> set xs. cell_of (snd x) ''Tag'' = Str tag \<Longrightarrow>
   map (row_key \<circ> snd) (number_rows ''unique_id'' k xs)
     = map (\<lambda>j. (Str tag, Num (real j))) [k ..< k + length xs]"
proof (induction "''unique_id''" k xs rule: number_rows.induct)
  case (1 k)
  then show ?case by simp
next
  case (2 k i r rest)
  have u: "[k ..< k + length ((i, r) # rest)] = k # [Suc k ..< Suc k + length rest]"
    by (simp add: upt_conv_Cons del: upt_Suc)
  from 2 show ?case
    unfolding u by (simp add: row_key_def cell_of_def)
qed

lemma tag_frame_rows:
  "rows (tag_frame tag df) =
     number_rows ''unique_id'' 0 (map (\<lambda>(i, r). (i, r(''Tag'' \<mapsto> Str tag))) (rows df))"
  by (simp add: tag_frame_def set_range_def set_constant_def)

lemma tag_frame_length: "length (rows (tag_frame tag df)) = length (rows df)"
  by (simp add: tag_frame_rows number_rows_length)

lemma tag_frame_keys:
  "map (row_key \<circ> snd) (rows (tag_frame tag df))
     = map (\<lambda>j. (Str tag, Num (real j))) [0 ..< length (rows df)]"
  using number_rows_keys [of "map (\<lambda>(i, r). (i, r(''Tag'' \<mapsto> Str tag))) (rows df)" tag 0]
  by (simp add: tag_frame_rows cell_of_def split_beta)

lemma tag_frame_columns:
  "''Tag'' \<in> set (columns (tag_frame tag df)) \<and> ''unique_id'' \<in> set (columns (tag_frame tag df))"
  by (simp add: tag_frame_def set_range_def set_constant_def add_column_def)

lemma tag_frame_tags:
  "map (\<lambda>x. cell_of (snd x) ''Tag'') (rows (tag_frame tag df)) = replicate (length (rows df)) (Str tag)"
proof -
  have "map fst (map (row_key \<circ> snd) (rows (tag_frame tag df)))
        = map fst (map (\<lambda>j. (Str tag, Num (real j))) [0 ..< length (rows df)])"
    by (simp only: tag_frame_keys)
  then show ?thesis
    by (simp add: comp_def row_key_def map_replicate_const)
qed

lemma load_loop_files:
  "read_csv ''r5.11.4-filtered.csv'' = Some d1 \<Longrightarrow>
   read_csv ''r5.12.0-filtered.csv'' = Some d2 \<Longrightarrow>
   read_csv ''r5.12.1-filtered.csv'' = Some d3 \<Longrightarrow>
   load_loop read_csv files empty_frame = Some (combined d1 d2 d3)"
  by (simp add: files_def combined_def)

lemma combined_rows:
  "rows (combined d1 d2 d3) =
     rows (tag_frame ''r5.11.4'' d1) @ rows (tag_frame ''r5.12.0'' d2) @ rows (tag_frame ''r5.12.1'' d3)"
  by (simp add: combined_def concat_frames_def empty_frame_def)

lemma combined_columns:
  "''Tag'' \<in> set (columns (combined d1 d2 d3)) \<and> ''unique_id'' \<in> set (columns (combined d1 d2 d3))"
  using tag_frame_columns [of "''r5.11.4''" d1]
  by (simp add: combined_def concat_frames_def empty_frame_def)

lemma combined_keys_distinct: "distinct (map (row_key \<circ> snd) (rows (combined d1 d2 d3)))"
  by (auto simp: combined_rows tag_frame_keys distinct_map inj_on_def)

lemma combined_no_duplicates: "drop_duplicates (combined d1 d2 d3) = combined d1 d2 d3"
proof -
  have "keep_first (columns (combined d1 d2 d3)) [] (rows (combined d1 d2 d3)) = rows (combined d1 d2 d3)"
    by (rule keep_first_distinct_keys) (use combined_columns combined_keys_distinct in simp_all)
  then show ?thesis by (simp add: drop_duplicates_def)
qed

text \<open>
  C6. When the three files parse, every row of the combined frame has its own pair of
  Tag and unique_id, so \<open>drop_duplicates\<close> removes nothing: the loaded data set is the
  whole concatenation, and it has as many rows as the three files together.
\<close>

theorem dedup_after_load_removes_nothing:
  assumes "read_csv ''r5.11.4-filtered.csv'' = Some d1"
      and "read_csv ''r5.12.0-filtered.csv'' = Some d2"
      and "read_csv ''r5.12.1-filtered.csv'' = Some d3"
  shows "load_loop read_csv files empty_frame = Some (combined d1 d2 d3)
       \<and> distinct (map (row_key \<circ> snd) (rows (combined d1 d2 d3)))
       \<and> drop_duplicates (combined d1 d2 d3) = combined d1 d2 d3
       \<and> load_all read_csv = Some (combined d1 d2 d3)
       \<and> length (rows (combined d1 d2 d3)) = length (rows d1) + length (rows d2) + length (rows d3)"
proof -
  have loaded: "load_loop read_csv files empty_frame = Some (combined d1 d2 d3)"
    by (rule load_loop_files [OF assms])
  have count: "length (rows (combined d1 d2 d3)) = length (rows d1) + length (rows d2) + length (rows d3)"
    by (simp add: combined_rows tag_frame_length)
  have all: "load_all read_csv = Some (combined d1 d2 d3)"
    by (simp add: load_all_def loaded combined_no_duplicates)
  from loaded combined_keys_distinct combined_no_duplicates all count show ?thesis
    by blast
qed

theorem dedup_after_load_removes_nothing_witness:
  "demo_read ''r5.11.4-filtered.csv'' = Some demo_a
   \<and> demo_read ''r5.12.0-filtered.csv'' = Some demo_b
   \<and> demo_read ''r5.12.1-filtered.csv'' = Some demo_b
   \<and> load_all demo_read = load_loop demo_read files empty_frame
   \<and> map_option (length \<circ> rows) (load_all demo_read) = Some 4"
  using dedup_after_load_removes_nothing [of demo_read demo_a demo_b demo_b]
  by (simp add: demo_read_def demo_a_def demo_b_def)

text \<open>
  C8. When the three files parse, the combined frame before deduplication has as many
  rows as the three files together, and its rows carry, in order, the tag of the file
  they came from.
\<close>

theorem combined_row_count:
  assumes "read_csv ''r5.11.4-filtered.csv'' = Some d1"
      and "read_csv ''r5.12.0-filtered.csv'' = Some d2"
      and "read_csv ''r5.12.1-filtered.csv'' = Some d3"
  shows "load_loop read_csv files empty_frame = Some (combined d1 d2 d3)
       \<and> length (rows (combined d1 d2 d3)) = length (rows d1) + length (rows d2) + length (rows d3)
       \<and> map (\<lambda>x. cell_of (snd x) ''Tag'') (rows (combined d1 d2 d3))
           = replicate (length (rows d1)) (Str ''r5.11.4'')
             @ replicate (length (rows d2)) (Str ''r5.12.0'')
             @ replicate (length (rows d3)) (Str ''r5.12.1'')"
  using load_loop_files [OF assms]
  by (simp add: combined_rows tag_frame_length tag_frame_tags)

theorem combined_row_count_witness:
  "demo_read ''r5.11.4-filtered.csv'' = Some demo_a
   \<and> demo_read ''r5.12.0-filtered.csv'' = Some demo_b
   \<and> demo_read ''r5.12.1-filtered.csv'' = Some demo_b
   \<and> map_option (map (\<lambda>x. cell_of (snd x) ''Tag'') \<circ> rows) (load_loop demo_read files empty_frame)
       = Some [Str ''r5.11.4'', Str ''r5.11.4'', Str ''r5.12.0'', Str ''r5.12.1'']"
  using combined_row_count [of demo_read demo_a demo_b demo_b]
  by (simp add: demo_read_def demo_a_def demo_b_def)

section \<open>Row classifier\<close>

lemma kinds_disjoint: "\<not> (isin ''Kind'' class_kinds r \<and> isin ''Kind'' method_kinds r)"
  by (auto simp: isin_def class_kinds_def method_kinds_def split: cell.splits)

lemma filter_three_way:
  assumes "\<And>x. \<not> (P x \<and> Q x)"
  shows "length (filter P xs) + length (filter Q xs) + length (filter (\<lambda>x. \<not> P x \<and> \<not> Q x) xs)
           = length xs"
  using assms by (induction xs) auto

text \<open>
  C5, as amended. The class rows and the method rows are two disjoint selections of the
  combined rows: a row is a class row exactly when its Kind is one of the two class
  kinds, a method row exactly when its Kind is one of the three method kinds, and the
  rows of any other Kind are in neither; the three groups together are all the rows.
\<close>

theorem classifier_split:
  assumes "''Kind'' \<in> set (columns all_data)"
  shows "\<exists>cd md. class_data all_data = Inr cd \<and> method_data all_data = Inr md
           \<and> set (rows cd) \<inter> set (rows md) = {}
           \<and> set (rows cd) = {x \<in> set (rows all_data). isin ''Kind'' class_kinds (snd x)}
           \<and> set (rows md) = {x \<in> set (rows all_data). isin ''Kind'' method_kinds (snd x)}
           \<and> length (rows cd) + length (rows md)
               + length (filter (\<lambda>x. \<not> isin ''Kind'' (class_kinds @ method_kinds) (snd x)) (rows all_data))
               = length (rows all_data)"
proof -
  let ?P = "\<lambda>x. isin ''Kind'' class_kinds (snd x)"
  let ?Q = "\<lambda>x. isin ''Kind'' method_kinds (snd x)"
  let ?cd = "all_data\<lparr>rows := filter ?P (rows all_data)\<rparr>"
  let ?md = "all_data\<lparr>rows := filter ?Q (rows all_data)\<rparr>"
  have c: "class_data all_data = Inr ?cd"
    using assms by (simp add: class_data_def select_isin_def split_def)
  have m: "method_data all_data = Inr ?md"
    using assms by (simp add: method_data_def select_isin_def split_def)
  have disj: "set (rows ?cd) \<inter> set (rows ?md) = {}"
    using kinds_disjoint by auto
  have neither: "(\<lambda>x. \<not> isin ''Kind'' (class_kinds @ method_kinds) (snd x)) = (\<lambda>x. \<not> ?P x \<and> \<not> ?Q x)"
    by (auto simp: isin_def fun_eq_iff split: cell.splits)
  have len: "length (rows ?cd) + length (rows ?md)
               + length (filter (\<lambda>x. \<not> isin ''Kind'' (class_kinds @ method_kinds) (snd x)) (rows all_data))
               = length (rows all_data)"
    unfolding neither using filter_three_way [of ?P ?Q "rows all_data"] kinds_disjoint by simp
  show ?thesis
    using c m disj len by (intro exI [of _ ?cd] exI [of _ ?md]) simp
qed

theorem classifier_split_witness:
  "''Kind'' \<in> set (columns kinds_frame)
   \<and> map_sum id (map fst \<circ> rows) (class_data kinds_frame) = Inr [0]
   \<and> map_sum id (map fst \<circ> rows) (method_data kinds_frame) = Inr [1]
   \<and> length (filter (\<lambda>x. \<not> isin ''Kind'' (class_kinds @ method_kinds) (snd x)) (rows kinds_frame)) = 1"
  using classifier_split [of kinds_frame]
  by (simp add: kinds_frame_def class_data_def method_data_def select_isin_def isin_def cell_of_def
        class_kinds_def method_kinds_def)

text \<open>
  C5 as stated fails: the third of these combined rows, of Kind Protected Class, is
  neither among the class rows nor among the method rows.
\<close>

theorem classifier_leaves_rows_out:
  "map fst (rows kinds_frame) = [0, 1, 2]
   \<and> cell_of (snd (rows kinds_frame ! 2)) ''Kind'' = Str ''Protected Class''
   \<and> map_sum id (map fst \<circ> rows) (class_data kinds_frame) = Inr [0]
   \<and> map_sum id (map fst \<circ> rows) (method_data kinds_frame) = Inr [1]"
  by (simp add: kinds_frame_def class_data_def method_data_def select_isin_def isin_def cell_of_def
        class_kinds_def method_kinds_def)

section \<open>Trend\<close>

text \<open>
  After \<open>dropna\<close> every group of a numeric column holds a number, so every tag of
  the cleaned rows has a median: the medians come one per tag, in group order.
\<close>

lemma column_values_set:
  "set (column_values metric rs) = {v. \<exists>x \<in> set rs. cell_of (snd x) metric = Num v}"
  by (induction rs) (auto simp: column_values_def split: cell.splits)

lemma group_keys_set:
  "set (group_keys df) = {t. \<exists>x \<in> set (rows df). cell_of (snd x) ''Tag'' = Str t}"
proof -
  have "set (concat (map (\<lambda>(i, r). case cell_of r ''Tag'' of Str t \<Rightarrow> [t] | _ \<Rightarrow> []) rs))
          = {t. \<exists>x \<in> set rs. cell_of (snd x) ''Tag'' = Str t}" for rs :: "(nat \<times> row) list"
    by (induction rs) (auto split: cell.splits)
  then show ?thesis by (simp add: group_keys_def)
qed

lemma group_values_nonempty:
  assumes "numeric_column metric (dropna metric df)"
      and "t \<in> set (group_keys (dropna metric df))"
  shows "group_values metric t (dropna metric df) \<noteq> []"
proof -
  from assms(2) obtain x where x: "x \<in> set (rows (dropna metric df))" "cell_of (snd x) ''Tag'' = Str t"
    by (auto simp: group_keys_set)
  from x(1) have present: "cell_of (snd x) metric \<noteq> NaN"
    by (auto simp: dropna_def)
  from assms(1) x(1) have "\<forall>s. cell_of (snd x) metric \<noteq> Str s"
    by (auto simp: numeric_column_def list_all_iff split: cell.splits)
  with present obtain v where v: "cell_of (snd x) metric = Num v"
    by (cases "cell_of (snd x) metric") auto
  from x v have "v \<in> set (group_values metric t (dropna metric df))"
    unfolding group_values_def column_values_set split_beta
    by (intro CollectI bexI [of _ x]) simp_all
  then show ?thesis by auto
qed

lemma concat_singletons:
  "\<forall>t \<in> set ks. \<exists>m. f t = [(t, m)] \<Longrightarrow> map fst (concat (map f ks)) = ks"
  by (induction ks) auto

lemma medians_tags:
  assumes "numeric_column metric (dropna metric df)"
  shows "map fst (medians metric (dropna metric df)) = group_keys (dropna metric df)"
  unfolding medians_def
proof (rule concat_singletons, rule ballI)
  fix t assume "t \<in> set (group_keys (dropna metric df))"
  with assms have "group_values metric t (dropna metric df) \<noteq> []"
    by (rule group_values_nonempty)
  then show "\<exists>m. (case median (group_values metric t (dropna metric df)) of
                     None \<Rightarrow> [] | Some m \<Rightarrow> [(t, m)]) = [(t, m)]"
    by (simp add: median_def Let_def)
qed

lemma is_monotonic_increasing_sorted: "is_monotonic_increasing xs = sorted xs"
  by (induction xs rule: is_monotonic_increasing.induct) (auto intro: order_trans)

lemma is_monotonic_decreasing_sorted: "is_monotonic_decreasing xs = sorted_wrt (\<ge>) xs"
  by (induction xs rule: is_monotonic_decreasing.induct) (auto intro: order_trans)

lemma constant_sorted: "list_all (\<lambda>x. x = m) ms \<Longrightarrow> sorted ms \<and> sorted_wrt (\<ge>) ms"
  by (induction ms) (simp_all add: list_all_iff)

text \<open>
  C1, as amended. The trend of a sequence of medians is "increasing" exactly when the
  sequence is non-decreasing, which includes every sequence of equal medians;
  "decreasing" exactly when it is non-increasing and not non-decreasing; and "stable"
  exactly when it is neither.
\<close>

theorem trend_by_monotonicity:
  "(trend ms = ''increasing'') = sorted ms
   \<and> (trend ms = ''decreasing'') = (sorted_wrt (\<ge>) ms \<and> \<not> sorted ms)
   \<and> (trend ms = ''stable'') = (\<not> sorted ms \<and> \<not> sorted_wrt (\<ge>) ms)
   \<and> (list_all (\<lambda>x. x = m) ms \<longrightarrow> trend ms = ''increasing'')"
  using constant_sorted [of m ms]
  by (auto simp: trend_def is_monotonic_increasing_sorted is_monotonic_decreasing_sorted)

theorem trend_by_monotonicity_witness:
  "medians ''CountLineCode'' rising_frame = [(''A'', 1.5), (''B'', 3.5)]
   \<and> trend (map snd (medians ''CountLineCode'' rising_frame)) = ''increasing''
   \<and> medians ''CountLineCode'' falling_frame = [(''A'', 3.5), (''B'', 1.5)]
   \<and> trend (map snd (medians ''CountLineCode'' falling_frame)) = ''decreasing''
   \<and> trend [1, 3, 2] = ''stable''
   \<and> list_all (\<lambda>x. x = 2) [2, 2 :: real] \<and> trend [2, 2] = ''increasing''"
proof -
  have r: "medians ''CountLineCode'' rising_frame = [(''A'', 1.5), (''B'', 3.5)]"
    by (simp add: medians_def median_def group_values_def column_values_def group_keys_def
          rising_frame_def frame_of_def class_row_def cell_of_def)
  have f: "medians ''CountLineCode'' falling_frame = [(''A'', 3.5), (''B'', 1.5)]"
    by (simp add: medians_def median_def group_values_def column_values_def group_keys_def
          falling_frame_def frame_of_def class_row_def cell_of_def)
  have c: "list_all (\<lambda>x. x = 2) [2, 2 :: real]"
    by simp
  have e: "trend [2, 2] = ''increasing''"
    using trend_by_monotonicity [of "[2, 2]" 2] c by blast
  show ?thesis
    using e by (simp add: r f trend_def)
qed

text \<open>
  C1 as stated fails: with the medians of all tags equal (2 and 2) the trend is
  "increasing", not "stable".
\<close>

theorem equal_medians_trend:
  "map snd (medians ''CountLineCode'' level_frame) = [2, 2]
   \<and> trend (map snd (medians ''CountLineCode'' level_frame)) = ''increasing''
   \<and> trend (map snd (medians ''CountLineCode'' level_frame)) \<noteq> ''stable''"
proof -
  have m: "medians ''CountLineCode'' level_frame = [(''A'', 2), (''B'', 2)]"
    by (simp add: medians_def median_def group_values_def column_values_def group_keys_def
          level_frame_def frame_of_def class_row_def cell_of_def)
  show ?thesis by (simp add: m trend_def)
qed

section \<open>Guideline comparison and notches\<close>

text \<open>
  C3. The SumCyclomatic comparison labels a median of exactly 20 "Low (<20)": Moderate
  begins strictly above 20.
\<close>

theorem cc_boundary_20:
  "cc_assessment 20 = ''Low (<20)''
   \<and> (cc_assessment v = ''Low (<20)'') = (v \<le> 20)
   \<and> (cc_assessment v = ''Moderate (20-50)'') = (20 < v \<and> v \<le> 50)
   \<and> (cc_assessment v = ''High (>50)'') = (50 < v)
   \<and> assessment ''SumCyclomatic'' [(t, 20)]
       = [AssessHeader ''Cyclomatic Complexity Assessment:'', AssessLine t 20 ''Low (<20)'']"
  by (simp add: cc_assessment_def assessment_def)

text \<open>
  C4. The PercentLackOfCohesion comparison labels a median of exactly 50 Good, of
  exactly 80 Moderate and of 81 Poor: Moderate is strictly above 50 and at most 80, Poor
  strictly above 80.
\<close>

theorem lcom_boundaries:
  "lcom_assessment 50 = ''Good (<50%)''
   \<and> lcom_assessment 80 = ''Moderate (50-80%)''
   \<and> lcom_assessment 81 = ''Poor (>80%)''
   \<and> (lcom_assessment v = ''Good (<50%)'') = (v \<le> 50)
   \<and> (lcom_assessment v = ''Moderate (50-80%)'') = (50 < v \<and> v \<le> 80)
   \<and> (lcom_assessment v = ''Poor (>80%)'') = (80 < v)
   \<and> assessment ''PercentLackOfCohesion'' [(t1, 50), (t2, 80), (t3, 81)]
       = [AssessHeader ''LCOM Assessment:'', AssessLine t1 50 ''Good (<50%)'',
          AssessLine t2 80 ''Moderate (50-80%)'', AssessLine t3 81 ''Poor (>80%)'']"
  by (simp add: lcom_assessment_def assessment_def)

text \<open>
  C2. For the discrete metrics the improved script sets \<open>use_notch\<close> to False, yet both
  scripts call the box plot with the notch on, for every metric.
\<close>

theorem notch_always_on:
  "use_notch ''MaxInheritanceTree'' = False
   \<and> use_notch ''CountClassCoupled'' = False
   \<and> use_notch ''CountClassDerived'' = False
   \<and> bp_notch (boxplot_improved metric clean_data) = True
   \<and> bp_notch (boxplot_basic metric clean_data) = True"
  by (simp add: use_notch_def boxplot_improved_def boxplot_basic_def)

section \<open>The analysis loop\<close>

text \<open>The loop on a list of metrics in two parts: the second part runs if the first finishes.\<close>

lemma analyze_append:
  "analyze v raises cd (pre @ post) =
     (case analyze v raises cd pre of
        (out, Finished) \<Rightarrow> prepend out (analyze v raises cd post)
      | (out, Aborted e) \<Rightarrow> (out, Aborted e))"
proof (induction pre)
  case Nil
  then show ?case by (simp add: prepend_def)
next
  case (Cons m pre)
  obtain out res where a: "analyze v raises cd pre = (out, res)"
    by (cases "analyze v raises cd pre")
  show ?case
  proof (cases "m \<in> set (columns cd)")
    case False
    with Cons.IH a show ?thesis
      by (cases res) (simp_all add: prepend_def)
  next
    case True
    obtain out' err where p: "process_metric v raises cd m = (out', err)"
      by (cases "process_metric v raises cd m")
    show ?thesis
    proof (cases err)
      case None
      with True p Cons.IH a show ?thesis
        by (cases res) (simp_all add: prepend_def)
    next
      case (Some e)
      with True p show ?thesis by simp
    qed
  qed
qed

lemma assessment_no_skip: "x \<in> set (assessment metric ms) \<Longrightarrow> \<not> is_skip x"
  unfolding assessment_def
  by (auto simp: is_skip_def split: if_splits)

lemma metric_report_no_skip: "x \<in> set (metric_report metric clean) \<Longrightarrow> \<not> is_skip x"
  unfolding metric_report_def Let_def
  using assessment_no_skip [of x metric] by (auto simp: is_skip_def)

lemma process_metric_cases:
  "fst (process_metric v raises cd m) = []
   \<or> fst (process_metric v raises cd m) = [Header m]
   \<or> fst (process_metric v raises cd m) = metric_report m (dropna m cd)
   \<or> (\<exists>e. fst (process_metric v raises cd m) = metric_report m (dropna m cd) @ [ChartError m e])"
  unfolding process_metric_def Let_def
  by (simp split: option.split)

lemma process_metric_no_skip: "x \<in> set (fst (process_metric v raises cd m)) \<Longrightarrow> \<not> is_skip x"
  using process_metric_cases [of v raises cd m] metric_report_no_skip [of x m "dropna m cd"]
  by (auto simp: is_skip_def)

text \<open>
  Apart from the skip notices, the run on a list of metrics is the run on those of them
  that are columns of the class rows.
\<close>

lemma analyze_without_absent:
  "snd (analyze v raises cd ms) = snd (analyze v raises cd (filter (\<lambda>m. m \<in> set (columns cd)) ms))
   \<and> filter (\<lambda>e. \<not> is_skip e) (fst (analyze v raises cd ms))
       = fst (analyze v raises cd (filter (\<lambda>m. m \<in> set (columns cd)) ms))"
proof (induction ms)
  case Nil
  then show ?case by simp
next
  case (Cons m ms)
  show ?case
  proof (cases "m \<in> set (columns cd)")
    case False
    with Cons show ?thesis by (simp add: prepend_def is_skip_def)
  next
    case True
    obtain out err where p: "process_metric v raises cd m = (out, err)"
      by (cases "process_metric v raises cd m")
    have keep: "filter (\<lambda>e. \<not> is_skip e) out = out"
      using process_metric_no_skip [of _ v raises cd m] p by (simp add: filter_id_conv)
    show ?thesis
    proof (cases err)
      case None
      with True p keep Cons show ?thesis by (simp add: prepend_def)
    next
      case (Some e)
      with True p keep show ?thesis by simp
    qed
  qed
qed

lemma handled_append: "handled (a @ b) = handled a @ handled b"
  by (simp add: handled_def)

lemma handled_lines: "handled (map (\<lambda>(tag, v). AssessLine tag v (f v)) ms) = []"
  by (induction ms) (auto simp: handled_def)

lemma handled_assessment: "handled (assessment metric ms) = []"
proof -
  have h: "handled (AssessHeader s # rest) = handled rest" for s rest
    by (simp add: handled_def)
  show ?thesis
    unfolding assessment_def by (simp add: h handled_lines) (simp add: handled_def)
qed

lemma handled_metric_report: "handled (metric_report metric clean) = [metric]"
proof -
  have h: "handled [Header metric, StatsTable t, TrendLine s] = [metric]" for t s
    by (simp add: handled_def)
  show ?thesis
    unfolding metric_report_def Let_def handled_append handled_assessment h by simp
qed

lemma handled_process_metric:
  assumes "process_metric v raises cd m = (out, None)"
  shows "handled out = [m]"
proof -
  have c: "handled [ChartError m e] = []" for e
    by (simp add: handled_def)
  from assms
  have "out = metric_report m (dropna m cd)
        \<or> (\<exists>e. out = metric_report m (dropna m cd) @ [ChartError m e])"
    unfolding process_metric_def Let_def
    by (auto split: if_splits option.splits)
  then show ?thesis
    by (auto simp: handled_append handled_metric_report c)
qed

text \<open>A run that finishes has dealt with every metric of the list, in list order.\<close>

lemma analyze_handles_all:
  "snd (analyze v raises cd ms) = Finished \<Longrightarrow> handled (fst (analyze v raises cd ms)) = ms"
proof (induction ms)
  case Nil
  then show ?case by (simp add: handled_def)
next
  case (Cons m ms)
  show ?case
  proof (cases "m \<in> set (columns cd)")
    case False
    with Cons show ?thesis by (simp add: prepend_def handled_def)
  next
    case True
    obtain out err where p: "process_metric v raises cd m = (out, err)"
      by (cases "process_metric v raises cd m")
    show ?thesis
    proof (cases err)
      case None
      with True p Cons handled_process_metric [of v raises cd m out] show ?thesis
        by (simp add: prepend_def handled_append)
    next
      case (Some e)
      with True p Cons.prems show ?thesis by simp
    qed
  qed
qed

text \<open>
  C9. When the loop reaches a metric that is not a column of the class rows, it prints
  the skip notice for it and goes on with the rest of the list as it would without it;
  the skip itself finishes normally. Leaving the absent metrics out of the list changes
  neither the outcome of the run nor anything it prints but the skip notices, and a run
  that finishes has dealt with every metric of the list in list order.
\<close>

theorem absent_metric_skipped:
  assumes "metric \<notin> set (columns cd)"
  shows "analyze v raises cd (pre @ metric # rest) =
           (case analyze v raises cd pre of
              (out, Finished) \<Rightarrow> prepend (out @ [SkipNotice metric]) (analyze v raises cd rest)
            | (out, Aborted e) \<Rightarrow> (out, Aborted e))
       \<and> analyze v raises cd [metric] = ([SkipNotice metric], Finished)
       \<and> snd (analyze v raises cd ms) = snd (analyze v raises cd (filter (\<lambda>m. m \<in> set (columns cd)) ms))
       \<and> filter (\<lambda>e. \<not> is_skip e) (fst (analyze v raises cd ms))
           = fst (analyze v raises cd (filter (\<lambda>m. m \<in> set (columns cd)) ms))
       \<and> (snd (analyze v raises cd ms) = Finished \<longrightarrow> handled (fst (analyze v raises cd ms)) = ms)"
proof -
  obtain out res where a: "analyze v raises cd pre = (out, res)"
    by (cases "analyze v raises cd pre")
  have one: "analyze v raises cd (metric # rest) = prepend [SkipNotice metric] (analyze v raises cd rest)"
    using assms by simp
  have first: "analyze v raises cd (pre @ metric # rest) =
           (case analyze v raises cd pre of
              (out, Finished) \<Rightarrow> prepend (out @ [SkipNotice metric]) (analyze v raises cd rest)
            | (out, Aborted e) \<Rightarrow> (out, Aborted e))"
    unfolding analyze_append [of v raises cd pre "metric # rest"] one a
    by (cases res) (simp_all add: prepend_def)
  have single: "analyze v raises cd [metric] = ([SkipNotice metric], Finished)"
    using assms by (simp add: prepend_def)
  from first single analyze_without_absent [of v raises cd ms] analyze_handles_all [of v raises cd ms]
  show ?thesis by blast
qed

lemma run_calls_quiet: "run_calls (\<lambda>c. None) cs = None"
  by (induction cs) simp_all

theorem absent_metric_skipped_witness:
  "''SumCyclomatic'' \<notin> set (columns rising_frame)
   \<and> analyze Improved quiet rising_frame [''SumCyclomatic'', ''CountLineCode'']
       = (SkipNotice ''SumCyclomatic'' # metric_report ''CountLineCode'' (dropna ''CountLineCode'' rising_frame),
          Finished)
   \<and> handled (fst (analyze Improved quiet rising_frame [''SumCyclomatic'', ''CountLineCode'']))
       = [''SumCyclomatic'', ''CountLineCode'']"
proof -
  have cols: "columns rising_frame = [''Kind'', ''CountLineCode'', ''Tag'']"
    by (simp add: rising_frame_def frame_of_def)
  have clean: "dropna ''CountLineCode'' rising_frame = rising_frame"
    by (simp add: dropna_def rising_frame_def frame_of_def class_row_def cell_of_def)
  have num: "numeric_column ''CountLineCode'' rising_frame"
    by (simp add: numeric_column_def rising_frame_def frame_of_def class_row_def cell_of_def)
  have vals: "column_values ''CountLineCode'' (rows rising_frame) = [1, 2, 3, 4]"
    by (simp add: column_values_def rising_frame_def frame_of_def class_row_def cell_of_def)
  have ch: "chart Improved (quiet ''CountLineCode'') ''CountLineCode'' rising_frame = None"
    by (simp add: chart_def chart_improved_def quiet_def run_calls_quiet axis_calls_def vals
          quantile_def series_min_def series_max_def Let_def)
  have fig: "quiet ''CountLineCode'' (figure_call Improved) = None"
    by (simp add: quiet_def)
  have pm: "process_metric Improved quiet rising_frame ''CountLineCode''
              = (metric_report ''CountLineCode'' rising_frame, None)"
    by (simp add: process_metric_def clean cols num ch fig)
  have absent: "''SumCyclomatic'' \<notin> set (columns rising_frame)"
    by (simp add: cols)
  have run: "analyze Improved quiet rising_frame [''SumCyclomatic'', ''CountLineCode'']
       = (SkipNotice ''SumCyclomatic'' # metric_report ''CountLineCode'' (dropna ''CountLineCode'' rising_frame),
          Finished)"
    using absent_metric_skipped [OF absent, of Improved quiet "[]" "[''CountLineCode'']"]
    by (simp add: cols clean pm prepend_def)
  have all: "handled (fst (analyze Improved quiet rising_frame [''SumCyclomatic'', ''CountLineCode'']))
       = [''SumCyclomatic'', ''CountLineCode'']"
    using absent_metric_skipped [OF absent, of Improved quiet "[]" "[]" "[''SumCyclomatic'', ''CountLineCode'']"]
    unfolding run by simp
  from absent run all show ?thesis by blast
qed

text \<open>
  C10, as amended. When the figure of a metric has been created and a call inside the
  try block raises an exception, the exception is logged with the metric's name and the
  loop goes on with the next metric: the rest of the list is analysed exactly as it
  would be on its own.
\<close>

theorem chart_failure_logged:
  assumes "metric \<in> set (columns cd)"
      and "''Tag'' \<in> set (columns cd)"
      and "numeric_column metric (dropna metric cd)"
      and "raises metric (figure_call v) = None"
      and "chart v (raises metric) metric (dropna metric cd) = Some e"
  shows "analyze v raises cd (metric # rest) =
           prepend (metric_report metric (dropna metric cd) @ [ChartError metric e])
             (analyze v raises cd rest)"
proof -
  have cols: "''Tag'' \<in> set (columns (dropna metric cd))"
    using assms(2) by (simp add: dropna_def)
  have "process_metric v raises cd metric
          = (metric_report metric (dropna metric cd) @ [ChartError metric e], None)"
    unfolding process_metric_def Let_def using cols assms(3,4,5) by simp
  with assms(1) show ?thesis by simp
qed

lemma two_cols: "columns two_metric_frame = [''Kind'', ''SumCyclomatic'', ''CountLineCode'', ''Tag'']"
  by (simp add: two_metric_frame_def)

lemma two_clean_cc: "dropna ''SumCyclomatic'' two_metric_frame = two_metric_frame"
  by (simp add: dropna_def two_metric_frame_def cell_of_def)

lemma two_clean_loc: "dropna ''CountLineCode'' two_metric_frame = two_metric_frame"
  by (simp add: dropna_def two_metric_frame_def cell_of_def)

lemma two_numeric:
  "numeric_column ''SumCyclomatic'' two_metric_frame \<and> numeric_column ''CountLineCode'' two_metric_frame"
  by (simp add: numeric_column_def two_metric_frame_def cell_of_def)

lemma two_values: "column_values ''CountLineCode'' (rows two_metric_frame) = [100, 120]"
  by (simp add: column_values_def two_metric_frame_def cell_of_def)

lemma boxplot_fails_chart:
  "chart Improved (boxplot_fails ''SumCyclomatic'') ''SumCyclomatic'' two_metric_frame
     = Some (LibraryError ''rendering failed'')"
  by (simp add: chart_def chart_improved_def boxplot_fails_def)

lemma boxplot_fails_other:
  "chart Improved (boxplot_fails ''CountLineCode'') ''CountLineCode'' two_metric_frame = None"
  by (simp add: chart_def chart_improved_def boxplot_fails_def axis_calls_def two_values
        quantile_def series_min_def series_max_def Let_def)

lemma boxplot_fails_figure: "boxplot_fails m (figure_call v) = None"
  by (cases v) (simp_all add: boxplot_fails_def figure_call_def)

theorem chart_failure_logged_witness:
  "''SumCyclomatic'' \<in> set (columns two_metric_frame)
   \<and> ''Tag'' \<in> set (columns two_metric_frame)
   \<and> numeric_column ''SumCyclomatic'' (dropna ''SumCyclomatic'' two_metric_frame)
   \<and> boxplot_fails ''SumCyclomatic'' (figure_call Improved) = None
   \<and> chart Improved (boxplot_fails ''SumCyclomatic'') ''SumCyclomatic''
        (dropna ''SumCyclomatic'' two_metric_frame) = Some (LibraryError ''rendering failed'')
   \<and> analyze Improved boxplot_fails two_metric_frame [''SumCyclomatic'', ''CountLineCode'']
       = (metric_report ''SumCyclomatic'' two_metric_frame
            @ [ChartError ''SumCyclomatic'' (LibraryError ''rendering failed'')]
            @ metric_report ''CountLineCode'' two_metric_frame, Finished)"
proof -
  have pm: "process_metric Improved boxplot_fails two_metric_frame ''CountLineCode''
              = (metric_report ''CountLineCode'' two_metric_frame, None)"
    by (simp add: process_metric_def two_clean_loc two_cols two_numeric boxplot_fails_other
          boxplot_fails_figure)
  have rest: "analyze Improved boxplot_fails two_metric_frame [''CountLineCode'']
                = (metric_report ''CountLineCode'' two_metric_frame, Finished)"
    by (simp add: two_cols pm prepend_def)
  have step: "analyze Improved boxplot_fails two_metric_frame [''SumCyclomatic'', ''CountLineCode'']
                = prepend (metric_report ''SumCyclomatic'' (dropna ''SumCyclomatic'' two_metric_frame)
                            @ [ChartError ''SumCyclomatic'' (LibraryError ''rendering failed'')])
                    (analyze Improved boxplot_fails two_metric_frame [''CountLineCode''])"
    by (rule chart_failure_logged)
       (simp_all add: two_cols two_clean_cc two_numeric boxplot_fails_chart boxplot_fails_figure)
  have run: "analyze Improved boxplot_fails two_metric_frame [''SumCyclomatic'', ''CountLineCode'']
       = (metric_report ''SumCyclomatic'' two_metric_frame
            @ [ChartError ''SumCyclomatic'' (LibraryError ''rendering failed'')]
            @ metric_report ''CountLineCode'' two_metric_frame, Finished)"
    unfolding step rest two_clean_cc by (simp add: prepend_def)
  show ?thesis
    unfolding run
    by (simp add: two_cols two_clean_cc two_numeric boxplot_fails_chart boxplot_fails_figure)
qed

text \<open>
  C10 as stated fails: \<^verbatim>\<open>plt.figure\<close> is called before the try block, so an exception
  it raises for SumCyclomatic ends the run. CountLineCode, a later metric of the list
  and a column of the class rows, gets neither statistics nor a chart.
\<close>

theorem figure_failure_aborts:
  "analyze Improved figure_fails two_metric_frame class_metrics
     = (metric_report ''SumCyclomatic'' two_metric_frame, Aborted (LibraryError ''cannot open display''))
   \<and> analyze Basic figure_fails two_metric_frame class_metrics
     = (metric_report ''SumCyclomatic'' two_metric_frame, Aborted (LibraryError ''cannot open display''))
   \<and> ''CountLineCode'' \<in> set class_metrics
   \<and> ''CountLineCode'' \<in> set (columns two_metric_frame)
   \<and> \<not> list_ex (\<lambda>e. e = Header ''CountLineCode'') (metric_report ''SumCyclomatic'' two_metric_frame)"
proof -
  have pm: "process_metric v figure_fails two_metric_frame ''SumCyclomatic''
              = (metric_report ''SumCyclomatic'' two_metric_frame, Some (LibraryError ''cannot open display''))" for v
    by (cases v)
       (simp_all add: process_metric_def two_clean_cc two_cols two_numeric figure_fails_def figure_call_def)
  have no: "\<not> list_ex (\<lambda>e. e = Header ''CountLineCode'') (metric_report ''SumCyclomatic'' two_metric_frame)"
    by (auto simp: metric_report_def assessment_def list_ex_iff Let_def)
  show ?thesis
    using no by (simp add: class_metrics_def two_cols pm)
qed

end
